theory Spec2Isabelle
  imports Complex_Main
begin

section \<open>The Placement expression graph of PlacementRep.h\<close>

text \<open>
  A shallow embedding of \<^verbatim>\<open>src/MultibodyModeling/PlacementRep.h\<close>. Every concrete
  class of the header is one constructor of the datatype \<open>PlacementRep\<close>; a virtual
  method is a function defined by one clause per class, the clause of a class that does
  not override the method being the inherited body. A failed \<^verbatim>\<open>assert\<close>, a failed
  checked downcast (\<^verbatim>\<open>SIMTK_DOWNCAST\<close>) and a thrown exception are values of \<open>error\<close>;
  assertions are taken as compiled in. The scalar type \<^verbatim>\<open>Real\<close> is the type
  parameter \<open>'r\<close>: the header only stores and copies scalars.
\<close>

subsection \<open>The value kind tag\<close>

text \<open>The enum \<^verbatim>\<open>PlacementType\<close>, enumerators in the order of the source.\<close>

datatype PlacementType =
    InvalidPlacementType
  | VoidPlacementType
  | BoolPlacementType
  | IntPlacementType
  | RealPlacementType
  | Vec2PlacementType
  | Vec3PlacementType
  | Mat33PlacementType
  | StationPlacementType
  | DirectionPlacementType
  | OrientationPlacementType
  | FramePlacementType

text \<open>The integer value the compiler gives each enumerator (the first is \<open>= 0\<close>).\<close>

fun PlacementType_value :: "PlacementType \<Rightarrow> nat" where
  "PlacementType_value InvalidPlacementType = 0"
| "PlacementType_value VoidPlacementType = 1"
| "PlacementType_value BoolPlacementType = 2"
| "PlacementType_value IntPlacementType = 3"
| "PlacementType_value RealPlacementType = 4"
| "PlacementType_value Vec2PlacementType = 5"
| "PlacementType_value Vec3PlacementType = 6"
| "PlacementType_value Mat33PlacementType = 7"
| "PlacementType_value StationPlacementType = 8"
| "PlacementType_value DirectionPlacementType = 9"
| "PlacementType_value OrientationPlacementType = 10"
| "PlacementType_value FramePlacementType = 11"

definition PlacementType_enumerators :: "PlacementType list" where
  "PlacementType_enumerators =
     [InvalidPlacementType, VoidPlacementType, BoolPlacementType, IntPlacementType,
      RealPlacementType, Vec2PlacementType, Vec3PlacementType, Mat33PlacementType,
      StationPlacementType, DirectionPlacementType, OrientationPlacementType,
      FramePlacementType]"

text \<open>
  The kinds as the specification lists them: boolean, integer, real, 2-vector, 3-vector,
  station, direction, orientation, frame, void and invalid.
\<close>

definition spec_value_kinds :: "PlacementType list" where
  "spec_value_kinds =
     [BoolPlacementType, IntPlacementType, RealPlacementType, Vec2PlacementType,
      Vec3PlacementType, StationPlacementType, DirectionPlacementType,
      OrientationPlacementType, FramePlacementType, VoidPlacementType,
      InvalidPlacementType]"

subsection \<open>Numeric values and cache slots\<close>

text \<open>
  \<^verbatim>\<open>Vec3\<close> is three scalars; \<^verbatim>\<open>Mat33\<close> and \<^verbatim>\<open>Mat34\<close> are kept by columns, \<open>m(j)\<close>
  of the source being column \<open>j\<close>.
\<close>

type_synonym 'r Vec3 = "'r \<times> 'r \<times> 'r"
type_synonym 'r Mat33 = "'r Vec3 \<times> 'r Vec3 \<times> 'r Vec3"
type_synonym 'r Mat34 = "'r Vec3 \<times> 'r Vec3 \<times> 'r Vec3 \<times> 'r Vec3"

fun Mat33_col :: "'r Mat33 \<Rightarrow> nat \<Rightarrow> 'r Vec3" where
  "Mat33_col (c0, c1, c2) j = (if j = 0 then c0 else if j = 1 then c1 else c2)"

definition Mat34_from_cols :: "'r Vec3 \<Rightarrow> 'r Vec3 \<Rightarrow> 'r Vec3 \<Rightarrow> 'r Vec3 \<Rightarrow> 'r Mat34" where
  "Mat34_from_cols c0 c1 c2 c3 = (c0, c1, c2, c3)"

text \<open>
  The template argument \<open>T\<close> of \<^verbatim>\<open>PlacementValue_<T>\<close>, and a value together with
  its \<open>T\<close>: what a type-erased \<^verbatim>\<open>PlacementValue\<close> can hold.
\<close>

datatype ValueType = T_Real | T_Vec3 | T_Mat33 | T_Mat34

datatype 'r Value =
    RealValue 'r
  | Vec3Value "'r Vec3"
  | Mat33Value "'r Mat33"
  | Mat34Value "'r Mat34"

fun typeOf :: "'r Value \<Rightarrow> ValueType" where
  "typeOf (RealValue x) = T_Real"
| "typeOf (Vec3Value v) = T_Vec3"
| "typeOf (Mat33Value m) = T_Mat33"
| "typeOf (Mat34Value m) = T_Mat34"

text \<open>
  \<^verbatim>\<open>PlacementValueRep_<T>\<close>: the flag \<open>valid\<close> of \<^verbatim>\<open>PlacementValueRep\<close> and
  the member \<open>value\<close> (here \<open>stored\<close>); a slot that was never set is not valid and holds
  whatever its memory held. The handle and owner links of a slot are left out.
\<close>

record 'r PlacementValueRep =
  valid :: bool
  stored :: "'r Value"

definition isValid :: "'r PlacementValueRep \<Rightarrow> bool" where
  "isValid pv = valid pv"

definition PlacementValueRep_getValue :: "'r PlacementValueRep \<Rightarrow> 'r Value" where
  "PlacementValueRep_getValue pv = stored pv"

definition PlacementValueRep_setValue :: "'r Value \<Rightarrow> 'r PlacementValueRep \<Rightarrow> 'r PlacementValueRep" where
  "PlacementValueRep_setValue v pv = pv\<lparr>stored := v, valid := True\<rparr>"

text \<open>The cache: the slots the nodes point to, by address.\<close>

type_synonym 'r Cache = "nat \<rightharpoonup> 'r PlacementValueRep"

datatype error =
    AssertionFailed
  | DowncastFailed
  | DanglingValueSlot
  | ValueNotValid
  | FeatureUsedAsFramePlacementMustBeOnFrame string string string

text \<open>
  Modelled from the spec: \<^verbatim>\<open>PlacementValue_<T>::get\<close> and \<^verbatim>\<open>PlacementValue_<T>::set\<close>
  of the handle class, whose header is not among the sources. The spec gives a node two
  interactions with its slot: "set" after recomputing, and "get", which is "assumed
  already valid, else a contract violation".
\<close>

definition PlacementValue_get :: "'r PlacementValueRep \<Rightarrow> error + 'r Value" where
  "PlacementValue_get pv =
     (if isValid pv then Inr (PlacementValueRep_getValue pv) else Inl ValueNotValid)"

definition PlacementValue_set :: "'r Value \<Rightarrow> 'r PlacementValueRep \<Rightarrow> 'r PlacementValueRep" where
  "PlacementValue_set v pv = PlacementValueRep_setValue v pv"

subsection \<open>Operators\<close>

datatype RealOps_OpKind =
    Real_Negate | Real_Abs | Real_Sqrt | Real_Exp | Real_Log | Real_Sin | Real_Cos
  | Real_Asin | Real_Acos | Real_VectorLength
  | Real_Add | Real_Subtract | Real_Multiply | Real_Divide | Real_DotProduct2
  | Real_DotProduct3 | Real_PointDistance | Real_AngleBetweenVectors

datatype Vec3Ops_OpKind =
    Vec3_RecastStation | Vec3_RecastDirection | Vec3_Negate
  | Vec3_Add | Vec3_Subtract | Vec3_StationDifference
  | Vec3_ScalarMultiply | Vec3_ScalarDivide | Vec3_CrossProduct

datatype StationOps_OpKind = Station_RecastVec3 | Station_Add | Station_Subtract

datatype DirectionOps_OpKind = Direction_Negate | Direction_Normalize

datatype OrientationOps_OpKind = Orientation_NoneYet

subsection \<open>Features and feature references\<close>

text \<open>A \<^verbatim>\<open>const Feature*\<close>: the identity of a Feature of the external tree.\<close>

datatype Feature = Feature nat

text \<open>\<^verbatim>\<open>FeatureReference\<close>: the referenced Feature and the index, \<open>-1\<close> for none.\<close>

record FeatureReference =
  feature :: Feature
  index :: int

definition getReferencedFeature :: "FeatureReference \<Rightarrow> Feature" where
  "getReferencedFeature r = feature r"

definition isIndexed :: "FeatureReference \<Rightarrow> bool" where
  "isIndexed r = (index r \<noteq> -1)"

definition getPlacementIndex :: "FeatureReference \<Rightarrow> int" where
  "getPlacementIndex r = index r"

definition refIsConstant :: "FeatureReference \<Rightarrow> bool" where
  "refIsConstant r = False"

subsection \<open>Placement nodes\<close>

text \<open>
  The data members of the base class \<^verbatim>\<open>PlacementRep\<close>; a null pointer is \<open>None\<close>.
\<close>

record PlacementRep_base =
  myHandle :: "nat option"
  owner :: "Feature option"
  indexInOwner :: int
  valueSlot :: "nat option"

text \<open>The constructor \<^verbatim>\<open>PlacementRep()\<close>.\<close>

definition PlacementRep_init :: PlacementRep_base where
  "PlacementRep_init = \<lparr>myHandle = None, owner = None, indexInOwner = -1, valueSlot = None\<rparr>"

text \<open>
  The seventeen concrete classes. An operand of an expression is a \<^verbatim>\<open>Placement\<close>
  handle held by value, which owns its node: here the node itself.
\<close>

datatype 'r PlacementRep =
    RealConstantPlacementRep PlacementRep_base 'r
  | RealFeaturePlacementRep PlacementRep_base FeatureReference
  | RealExprPlacementRep PlacementRep_base RealOps_OpKind "'r PlacementRep list"
  | Vec3ConstantPlacementRep PlacementRep_base "'r Vec3"
  | Vec3FeaturePlacementRep PlacementRep_base FeatureReference
  | Vec3ExprPlacementRep PlacementRep_base Vec3Ops_OpKind "'r PlacementRep list"
  | StationConstantPlacementRep PlacementRep_base "'r Vec3"
  | StationFeaturePlacementRep PlacementRep_base FeatureReference
  | StationExprPlacementRep PlacementRep_base StationOps_OpKind "'r PlacementRep list"
  | DirectionConstantPlacementRep PlacementRep_base "'r Vec3"
  | DirectionFeaturePlacementRep PlacementRep_base FeatureReference
  | DirectionExprPlacementRep PlacementRep_base DirectionOps_OpKind "'r PlacementRep list"
  | OrientationConstantPlacementRep PlacementRep_base "'r Mat33"
  | OrientationFeaturePlacementRep PlacementRep_base FeatureReference
  | OrientationExprPlacementRep PlacementRep_base OrientationOps_OpKind "'r PlacementRep list"
  | FrameFeaturePlacementRep PlacementRep_base FeatureReference
  | FrameExprPlacementRep PlacementRep_base "'r PlacementRep" "'r PlacementRep"

fun base :: "'r PlacementRep \<Rightarrow> PlacementRep_base" where
  "base (RealConstantPlacementRep b v) = b"
| "base (RealFeaturePlacementRep b r) = b"
| "base (RealExprPlacementRep b k args) = b"
| "base (Vec3ConstantPlacementRep b v) = b"
| "base (Vec3FeaturePlacementRep b r) = b"
| "base (Vec3ExprPlacementRep b k args) = b"
| "base (StationConstantPlacementRep b v) = b"
| "base (StationFeaturePlacementRep b r) = b"
| "base (StationExprPlacementRep b k args) = b"
| "base (DirectionConstantPlacementRep b v) = b"
| "base (DirectionFeaturePlacementRep b r) = b"
| "base (DirectionExprPlacementRep b k args) = b"
| "base (OrientationConstantPlacementRep b m) = b"
| "base (OrientationFeaturePlacementRep b r) = b"
| "base (OrientationExprPlacementRep b k args) = b"
| "base (FrameFeaturePlacementRep b r) = b"
| "base (FrameExprPlacementRep b orientation origin) = b"

fun with_base :: "'r PlacementRep \<Rightarrow> PlacementRep_base \<Rightarrow> 'r PlacementRep" where
  "with_base (RealConstantPlacementRep b v) c = RealConstantPlacementRep c v"
| "with_base (RealFeaturePlacementRep b r) c = RealFeaturePlacementRep c r"
| "with_base (RealExprPlacementRep b k args) c = RealExprPlacementRep c k args"
| "with_base (Vec3ConstantPlacementRep b v) c = Vec3ConstantPlacementRep c v"
| "with_base (Vec3FeaturePlacementRep b r) c = Vec3FeaturePlacementRep c r"
| "with_base (Vec3ExprPlacementRep b k args) c = Vec3ExprPlacementRep c k args"
| "with_base (StationConstantPlacementRep b v) c = StationConstantPlacementRep c v"
| "with_base (StationFeaturePlacementRep b r) c = StationFeaturePlacementRep c r"
| "with_base (StationExprPlacementRep b k args) c = StationExprPlacementRep c k args"
| "with_base (DirectionConstantPlacementRep b v) c = DirectionConstantPlacementRep c v"
| "with_base (DirectionFeaturePlacementRep b r) c = DirectionFeaturePlacementRep c r"
| "with_base (DirectionExprPlacementRep b k args) c = DirectionExprPlacementRep c k args"
| "with_base (OrientationConstantPlacementRep b m) c = OrientationConstantPlacementRep c m"
| "with_base (OrientationFeaturePlacementRep b r) c = OrientationFeaturePlacementRep c r"
| "with_base (OrientationExprPlacementRep b k args) c = OrientationExprPlacementRep c k args"
| "with_base (FrameFeaturePlacementRep b r) c = FrameFeaturePlacementRep c r"
| "with_base (FrameExprPlacementRep b orientation origin) c = FrameExprPlacementRep c orientation origin"

text \<open>\<^verbatim>\<open>getPlacementType\<close>, defined once in each per-kind base class.\<close>

fun getPlacementType :: "'r PlacementRep \<Rightarrow> PlacementType" where
  "getPlacementType (RealConstantPlacementRep b v) = RealPlacementType"
| "getPlacementType (RealFeaturePlacementRep b r) = RealPlacementType"
| "getPlacementType (RealExprPlacementRep b k args) = RealPlacementType"
| "getPlacementType (Vec3ConstantPlacementRep b v) = Vec3PlacementType"
| "getPlacementType (Vec3FeaturePlacementRep b r) = Vec3PlacementType"
| "getPlacementType (Vec3ExprPlacementRep b k args) = Vec3PlacementType"
| "getPlacementType (StationConstantPlacementRep b v) = StationPlacementType"
| "getPlacementType (StationFeaturePlacementRep b r) = StationPlacementType"
| "getPlacementType (StationExprPlacementRep b k args) = StationPlacementType"
| "getPlacementType (DirectionConstantPlacementRep b v) = DirectionPlacementType"
| "getPlacementType (DirectionFeaturePlacementRep b r) = DirectionPlacementType"
| "getPlacementType (DirectionExprPlacementRep b k args) = DirectionPlacementType"
| "getPlacementType (OrientationConstantPlacementRep b m) = OrientationPlacementType"
| "getPlacementType (OrientationFeaturePlacementRep b r) = OrientationPlacementType"
| "getPlacementType (OrientationExprPlacementRep b k args) = OrientationPlacementType"
| "getPlacementType (FrameFeaturePlacementRep b r) = FramePlacementType"
| "getPlacementType (FrameExprPlacementRep b orientation origin) = FramePlacementType"

text \<open>
  The \<open>T\<close> of the \<^verbatim>\<open>PlacementValue_<T>\<close> to which the per-kind base class of a
  node narrows its slot in \<^verbatim>\<open>updValueSlot\<close> and \<^verbatim>\<open>getValue\<close>.
\<close>

fun slotType :: "'r PlacementRep \<Rightarrow> ValueType" where
  "slotType (RealConstantPlacementRep b v) = T_Real"
| "slotType (RealFeaturePlacementRep b r) = T_Real"
| "slotType (RealExprPlacementRep b k args) = T_Real"
| "slotType (Vec3ConstantPlacementRep b v) = T_Vec3"
| "slotType (Vec3FeaturePlacementRep b r) = T_Vec3"
| "slotType (Vec3ExprPlacementRep b k args) = T_Vec3"
| "slotType (StationConstantPlacementRep b v) = T_Vec3"
| "slotType (StationFeaturePlacementRep b r) = T_Vec3"
| "slotType (StationExprPlacementRep b k args) = T_Vec3"
| "slotType (DirectionConstantPlacementRep b v) = T_Vec3"
| "slotType (DirectionFeaturePlacementRep b r) = T_Vec3"
| "slotType (DirectionExprPlacementRep b k args) = T_Vec3"
| "slotType (OrientationConstantPlacementRep b m) = T_Mat33"
| "slotType (OrientationFeaturePlacementRep b r) = T_Mat33"
| "slotType (OrientationExprPlacementRep b k args) = T_Mat33"
| "slotType (FrameFeaturePlacementRep b r) = T_Mat34"
| "slotType (FrameExprPlacementRep b orientation origin) = T_Mat34"

text \<open>Which of the three ways of construction a class is: its name says it.\<close>

datatype ConstructedKind = ConstantNode | FeatureNode | ExprNode

fun constructedKind :: "'r PlacementRep \<Rightarrow> ConstructedKind" where
  "constructedKind (RealConstantPlacementRep b v) = ConstantNode"
| "constructedKind (RealFeaturePlacementRep b r) = FeatureNode"
| "constructedKind (RealExprPlacementRep b k args) = ExprNode"
| "constructedKind (Vec3ConstantPlacementRep b v) = ConstantNode"
| "constructedKind (Vec3FeaturePlacementRep b r) = FeatureNode"
| "constructedKind (Vec3ExprPlacementRep b k args) = ExprNode"
| "constructedKind (StationConstantPlacementRep b v) = ConstantNode"
| "constructedKind (StationFeaturePlacementRep b r) = FeatureNode"
| "constructedKind (StationExprPlacementRep b k args) = ExprNode"
| "constructedKind (DirectionConstantPlacementRep b v) = ConstantNode"
| "constructedKind (DirectionFeaturePlacementRep b r) = FeatureNode"
| "constructedKind (DirectionExprPlacementRep b k args) = ExprNode"
| "constructedKind (OrientationConstantPlacementRep b m) = ConstantNode"
| "constructedKind (OrientationFeaturePlacementRep b r) = FeatureNode"
| "constructedKind (OrientationExprPlacementRep b k args) = ExprNode"
| "constructedKind (FrameFeaturePlacementRep b r) = FeatureNode"
| "constructedKind (FrameExprPlacementRep b orientation origin) = ExprNode"

text \<open>\<^verbatim>\<open>exprGetArgs\<close> of the classes that inherit \<^verbatim>\<open>PlacementExpr\<close>.\<close>

fun exprGetArgs :: "'r PlacementRep \<Rightarrow> 'r PlacementRep list option" where
  "exprGetArgs (RealExprPlacementRep b k args) = Some args"
| "exprGetArgs (Vec3ExprPlacementRep b k args) = Some args"
| "exprGetArgs (StationExprPlacementRep b k args) = Some args"
| "exprGetArgs (DirectionExprPlacementRep b k args) = Some args"
| "exprGetArgs (OrientationExprPlacementRep b k args) = Some args"
| "exprGetArgs r = None"

subsection \<open>What the header takes from elsewhere\<close>

text \<open>
  The Feature tree is an external collaborator, and the bodies of several methods that
  the header only declares are in a file that is not among the sources. Both are
  parameters of the model: the queries on Features that the header calls, and the
  declared methods \<^verbatim>\<open>refRealize\<close>, \<^verbatim>\<open>getReferencedValue\<close> and the three
  \<^verbatim>\<open>findAncestorFeature\<close> helpers.
\<close>

record 'r Collaborators =
  Station_isInstanceOf :: "Feature \<Rightarrow> bool"
  Frame_isInstanceOf :: "Feature \<Rightarrow> bool"
  hasParentFeature :: "Feature \<Rightarrow> bool"
  getParentFeature :: "Feature \<Rightarrow> Feature"
  Frame_getOrientation :: "Feature \<Rightarrow> Feature"
  getFullName :: "Feature \<Rightarrow> string"
  getFeatureTypeName :: "Feature \<Rightarrow> string"
  Feature_dependsOn :: "Feature \<Rightarrow> Feature \<Rightarrow> bool"
  refRealize :: "FeatureReference \<Rightarrow> 'r Cache \<Rightarrow> error + 'r Cache"
  getReferencedValue :: "FeatureReference \<Rightarrow> 'r Cache \<Rightarrow> error + 'r Value"
  refFindAncestorFeature :: "FeatureReference \<Rightarrow> Feature \<Rightarrow> error + Feature option"
  exprFindAncestorFeature :: "'r PlacementRep list \<Rightarrow> Feature \<Rightarrow> error + Feature option"
  frameFindAncestorFeature ::
    "'r PlacementRep \<Rightarrow> 'r PlacementRep \<Rightarrow> Feature \<Rightarrow> error + Feature option"

definition refDependsOn :: "'r Collaborators \<Rightarrow> FeatureReference \<Rightarrow> Feature \<Rightarrow> bool" where
  "refDependsOn C r f = Feature_dependsOn C (feature r) f"

subsection \<open>The slot of a node\<close>

definition assignValueSlot :: "nat \<Rightarrow> PlacementRep_base \<Rightarrow> PlacementRep_base" where
  "assignValueSlot p b = b\<lparr>valueSlot := Some p\<rparr>"

definition hasValueSlot :: "PlacementRep_base \<Rightarrow> bool" where
  "hasValueSlot b = (valueSlot b \<noteq> None)"

definition setMyHandle :: "nat \<Rightarrow> PlacementRep_base \<Rightarrow> PlacementRep_base" where
  "setMyHandle p b = b\<lparr>myHandle := Some p\<rparr>"

definition hasHandle :: "PlacementRep_base \<Rightarrow> bool" where
  "hasHandle b = (myHandle b \<noteq> None)"

definition setOwner :: "Feature \<Rightarrow> int \<Rightarrow> PlacementRep_base \<Rightarrow> PlacementRep_base" where
  "setOwner f i b = b\<lparr>owner := Some f, indexInOwner := i\<rparr>"

definition hasOwner :: "PlacementRep_base \<Rightarrow> bool" where
  "hasOwner b = (owner b \<noteq> None)"

definition getIndexInOwner :: "PlacementRep_base \<Rightarrow> error + int" where
  "getIndexInOwner b = (if owner b = None then Inl AssertionFailed else Inr (indexInOwner b))"

text \<open>
  \<^verbatim>\<open>getValueSlot\<close> and \<^verbatim>\<open>updValueSlot\<close> assert the pointer and dereference it;
  a pointer to no slot of the cache is the error \<open>DanglingValueSlot\<close>.
\<close>

definition getValueSlot :: "PlacementRep_base \<Rightarrow> 'r Cache \<Rightarrow> error + 'r PlacementValueRep" where
  "getValueSlot b \<sigma> =
     (case valueSlot b of
        None \<Rightarrow> Inl AssertionFailed
      | Some p \<Rightarrow> (case \<sigma> p of None \<Rightarrow> Inl DanglingValueSlot | Some pv \<Rightarrow> Inr pv))"

text \<open>The checked downcast \<^verbatim>\<open>PlacementValue_<T>::downcast\<close>.\<close>

definition PlacementValue_downcast ::
  "ValueType \<Rightarrow> 'r PlacementValueRep \<Rightarrow> error + 'r PlacementValueRep" where
  "PlacementValue_downcast T pv = (if typeOf (stored pv) = T then Inr pv else Inl DowncastFailed)"

text \<open>
  The \<^verbatim>\<open>getValue\<close> of a per-kind base class:
  \<^verbatim>\<open>assert(hasValueSlot()); return PlacementValue_<T>::downcast(getValueSlot()).get();\<close>
\<close>

definition getValue_fromSlot :: "ValueType \<Rightarrow> PlacementRep_base \<Rightarrow> 'r Cache \<Rightarrow> error + 'r Value" where
  "getValue_fromSlot T b \<sigma> =
     (if \<not> hasValueSlot b then Inl AssertionFailed
      else case getValueSlot b \<sigma> of
             Inl e \<Rightarrow> Inl e
           | Inr pv \<Rightarrow> (case PlacementValue_downcast T pv of
                          Inl e \<Rightarrow> Inl e
                        | Inr pv' \<Rightarrow> PlacementValue_get pv'))"

text \<open>
  \<^verbatim>\<open>updValueSlot().set(v)\<close> with the \<^verbatim>\<open>updValueSlot\<close> of a per-kind base class,
  which narrows the slot to \<^verbatim>\<open>PlacementValue_<T>\<close>; the argument of \<^verbatim>\<open>set\<close> is a
  \<open>T\<close> by its static type.
\<close>

definition updValueSlot_set ::
  "ValueType \<Rightarrow> PlacementRep_base \<Rightarrow> 'r Value \<Rightarrow> 'r Cache \<Rightarrow> error + 'r Cache" where
  "updValueSlot_set T b v \<sigma> =
     (case valueSlot b of
        None \<Rightarrow> Inl AssertionFailed
      | Some p \<Rightarrow>
          (case \<sigma> p of
             None \<Rightarrow> Inl DanglingValueSlot
           | Some pv \<Rightarrow>
               (case PlacementValue_downcast T pv of
                  Inl e \<Rightarrow> Inl e
                | Inr pv' \<Rightarrow>
                    if typeOf v = T then Inr (\<sigma>(p \<mapsto> PlacementValue_set v pv'))
                    else Inl DowncastFailed)))"

subsection \<open>Constancy and dependency\<close>

text \<open>
  Modelled from the spec: the bodies of \<^verbatim>\<open>PlacementExpr::exprIsConstant\<close> and
  \<^verbatim>\<open>PlacementExpr::exprDependsOn\<close>, which the header declares under the comments
  "Return true if all the arguments are constant" and "Return true if any of the
  arguments depend on f": a loop over the operands in order, which calls the virtual
  method of each.

  \<^verbatim>\<open>isConstant\<close> is \<open>true\<close> in a constant class, \<^verbatim>\<open>refIsConstant()\<close> in a
  feature class, \<^verbatim>\<open>exprIsConstant()\<close> in an expression class, and the conjunction
  of the two members in \<^verbatim>\<open>FrameExprPlacementRep\<close>.
\<close>

fun isConstant :: "'r PlacementRep \<Rightarrow> bool"
  and exprIsConstant :: "'r PlacementRep list \<Rightarrow> bool" where
  "isConstant (RealConstantPlacementRep b v) = True"
| "isConstant (RealFeaturePlacementRep b r) = refIsConstant r"
| "isConstant (RealExprPlacementRep b k args) = exprIsConstant args"
| "isConstant (Vec3ConstantPlacementRep b v) = True"
| "isConstant (Vec3FeaturePlacementRep b r) = refIsConstant r"
| "isConstant (Vec3ExprPlacementRep b k args) = exprIsConstant args"
| "isConstant (StationConstantPlacementRep b v) = True"
| "isConstant (StationFeaturePlacementRep b r) = refIsConstant r"
| "isConstant (StationExprPlacementRep b k args) = exprIsConstant args"
| "isConstant (DirectionConstantPlacementRep b v) = True"
| "isConstant (DirectionFeaturePlacementRep b r) = refIsConstant r"
| "isConstant (DirectionExprPlacementRep b k args) = exprIsConstant args"
| "isConstant (OrientationConstantPlacementRep b m) = True"
| "isConstant (OrientationFeaturePlacementRep b r) = refIsConstant r"
| "isConstant (OrientationExprPlacementRep b k args) = exprIsConstant args"
| "isConstant (FrameFeaturePlacementRep b r) = refIsConstant r"
| "isConstant (FrameExprPlacementRep b orientation origin) =
     (isConstant orientation \<and> isConstant origin)"
| "exprIsConstant [] = True"
| "exprIsConstant (a # as) = (if \<not> isConstant a then False else exprIsConstant as)"

text \<open>
  \<^verbatim>\<open>dependsOn\<close>: the default \<open>false\<close> of \<^verbatim>\<open>PlacementRep\<close> in a constant class,
  \<^verbatim>\<open>refDependsOn(f)\<close> in a feature class, \<^verbatim>\<open>exprDependsOn(f)\<close> in an expression
  class, the disjunction of the two members in \<^verbatim>\<open>FrameExprPlacementRep\<close>.
\<close>

fun dependsOn :: "'r Collaborators \<Rightarrow> 'r PlacementRep \<Rightarrow> Feature \<Rightarrow> bool"
  and exprDependsOn :: "'r Collaborators \<Rightarrow> 'r PlacementRep list \<Rightarrow> Feature \<Rightarrow> bool" where
  "dependsOn C (RealConstantPlacementRep b v) f = False"
| "dependsOn C (RealFeaturePlacementRep b r) f = refDependsOn C r f"
| "dependsOn C (RealExprPlacementRep b k args) f = exprDependsOn C args f"
| "dependsOn C (Vec3ConstantPlacementRep b v) f = False"
| "dependsOn C (Vec3FeaturePlacementRep b r) f = refDependsOn C r f"
| "dependsOn C (Vec3ExprPlacementRep b k args) f = exprDependsOn C args f"
| "dependsOn C (StationConstantPlacementRep b v) f = False"
| "dependsOn C (StationFeaturePlacementRep b r) f = refDependsOn C r f"
| "dependsOn C (StationExprPlacementRep b k args) f = exprDependsOn C args f"
| "dependsOn C (DirectionConstantPlacementRep b v) f = False"
| "dependsOn C (DirectionFeaturePlacementRep b r) f = refDependsOn C r f"
| "dependsOn C (DirectionExprPlacementRep b k args) f = exprDependsOn C args f"
| "dependsOn C (OrientationConstantPlacementRep b m) f = False"
| "dependsOn C (OrientationFeaturePlacementRep b r) f = refDependsOn C r f"
| "dependsOn C (OrientationExprPlacementRep b k args) f = exprDependsOn C args f"
| "dependsOn C (FrameFeaturePlacementRep b r) f = refDependsOn C r f"
| "dependsOn C (FrameExprPlacementRep b orientation origin) f =
     (dependsOn C orientation f \<or> dependsOn C origin f)"
| "exprDependsOn C [] f = False"
| "exprDependsOn C (a # as) f = (if dependsOn C a f then True else exprDependsOn C as f)"

definition isRealizable :: "'r PlacementRep \<Rightarrow> bool" where
  "isRealizable r = (hasValueSlot (base r) \<or> isConstant r)"

subsection \<open>Reading a value\<close>

text \<open>
  \<^verbatim>\<open>getValue\<close>. The classes \<^verbatim>\<open>RealConstantPlacementRep\<close>,
  \<^verbatim>\<open>Vec3ConstantPlacementRep\<close> and \<^verbatim>\<open>OrientationConstantPlacementRep\<close> override it
  and return their member. \<^verbatim>\<open>StationConstantPlacementRep\<close> and
  \<^verbatim>\<open>DirectionConstantPlacementRep\<close> define \<^verbatim>\<open>getMeasureNumbers\<close> and no
  \<^verbatim>\<open>getValue\<close>, so they inherit the one of their base class, like every feature and
  expression class.
\<close>

fun getValue :: "'r PlacementRep \<Rightarrow> 'r Cache \<Rightarrow> error + 'r Value" where
  "getValue (RealConstantPlacementRep b v) \<sigma> = Inr (RealValue v)"
| "getValue (RealFeaturePlacementRep b r) \<sigma> = getValue_fromSlot T_Real b \<sigma>"
| "getValue (RealExprPlacementRep b k args) \<sigma> = getValue_fromSlot T_Real b \<sigma>"
| "getValue (Vec3ConstantPlacementRep b v) \<sigma> = Inr (Vec3Value v)"
| "getValue (Vec3FeaturePlacementRep b r) \<sigma> = getValue_fromSlot T_Vec3 b \<sigma>"
| "getValue (Vec3ExprPlacementRep b k args) \<sigma> = getValue_fromSlot T_Vec3 b \<sigma>"
| "getValue (StationConstantPlacementRep b v) \<sigma> = getValue_fromSlot T_Vec3 b \<sigma>"
| "getValue (StationFeaturePlacementRep b r) \<sigma> = getValue_fromSlot T_Vec3 b \<sigma>"
| "getValue (StationExprPlacementRep b k args) \<sigma> = getValue_fromSlot T_Vec3 b \<sigma>"
| "getValue (DirectionConstantPlacementRep b v) \<sigma> = getValue_fromSlot T_Vec3 b \<sigma>"
| "getValue (DirectionFeaturePlacementRep b r) \<sigma> = getValue_fromSlot T_Vec3 b \<sigma>"
| "getValue (DirectionExprPlacementRep b k args) \<sigma> = getValue_fromSlot T_Vec3 b \<sigma>"
| "getValue (OrientationConstantPlacementRep b m) \<sigma> = Inr (Mat33Value m)"
| "getValue (OrientationFeaturePlacementRep b r) \<sigma> = getValue_fromSlot T_Mat33 b \<sigma>"
| "getValue (OrientationExprPlacementRep b k args) \<sigma> = getValue_fromSlot T_Mat33 b \<sigma>"
| "getValue (FrameFeaturePlacementRep b r) \<sigma> = getValue_fromSlot T_Mat34 b \<sigma>"
| "getValue (FrameExprPlacementRep b orientation origin) \<sigma> = getValue_fromSlot T_Mat34 b \<sigma>"

text \<open>
  The members of \<^verbatim>\<open>FrameExprPlacementRep\<close> are an \<^verbatim>\<open>OrientationPlacement\<close> and a
  \<^verbatim>\<open>StationPlacement\<close>, whose \<^verbatim>\<open>getValue\<close> is a \<^verbatim>\<open>Mat33\<close> and a \<^verbatim>\<open>Vec3\<close> by
  their static types; a value of another type is a failed downcast here.
\<close>

definition getValue_Mat33 :: "'r PlacementRep \<Rightarrow> 'r Cache \<Rightarrow> error + 'r Mat33" where
  "getValue_Mat33 r \<sigma> =
     (case getValue r \<sigma> of
        Inl e \<Rightarrow> Inl e
      | Inr v \<Rightarrow> (case v of Mat33Value m \<Rightarrow> Inr m | _ \<Rightarrow> Inl DowncastFailed))"

definition getValue_Vec3 :: "'r PlacementRep \<Rightarrow> 'r Cache \<Rightarrow> error + 'r Vec3" where
  "getValue_Vec3 r \<sigma> =
     (case getValue r \<sigma> of
        Inl e \<Rightarrow> Inl e
      | Inr v \<Rightarrow> (case v of Vec3Value x \<Rightarrow> Inr x | _ \<Rightarrow> Inl DowncastFailed))"

text \<open>Whether the slot of a node has been set: the node has been realized.\<close>

definition slotIsValid :: "PlacementRep_base \<Rightarrow> 'r Cache \<Rightarrow> bool" where
  "slotIsValid b \<sigma> =
     (case valueSlot b of
        None \<Rightarrow> False
      | Some p \<Rightarrow> (case \<sigma> p of None \<Rightarrow> False | Some pv \<Rightarrow> isValid pv))"

subsection \<open>Realization\<close>

text \<open>
  The run-time evaluators: \<^verbatim>\<open>{assert(false); return 0.;}\<close> in \<^verbatim>\<open>RealOps\<close> and
  \<^verbatim>\<open>{assert(false); return Vec3(0);}\<close> in \<^verbatim>\<open>Vec3Ops\<close>.
\<close>

definition RealOps_apply :: "RealOps_OpKind \<Rightarrow> 'r PlacementRep list \<Rightarrow> error + 'r" where
  "RealOps_apply k args = Inl AssertionFailed"

definition Vec3Ops_apply :: "Vec3Ops_OpKind \<Rightarrow> 'r PlacementRep list \<Rightarrow> error + 'r Vec3" where
  "Vec3Ops_apply k args = Inl AssertionFailed"

text \<open>
  The \<^verbatim>\<open>realize\<close> of the feature classes, the same text in each:
  \<^verbatim>\<open>assert(hasValueSlot()); refRealize(); updValueSlot().set(getReferencedValue());\<close>
\<close>

definition realize_feature ::
  "'r Collaborators \<Rightarrow> ValueType \<Rightarrow> PlacementRep_base \<Rightarrow> FeatureReference \<Rightarrow> 'r Cache
     \<Rightarrow> error + 'r Cache" where
  "realize_feature C T b r \<sigma> =
     (if \<not> hasValueSlot b then Inl AssertionFailed
      else case refRealize C r \<sigma> of
             Inl e \<Rightarrow> Inl e
           | Inr \<sigma>1 \<Rightarrow> (case getReferencedValue C r \<sigma>1 of
                          Inl e \<Rightarrow> Inl e
                        | Inr v \<Rightarrow> updValueSlot_set T b v \<sigma>1))"

text \<open>
  Modelled from the spec: the body of \<^verbatim>\<open>PlacementExpr::exprRealize\<close>, declared in
  the header under the comment "Make sure all the arguments are realized": it realizes
  the operands in order.

  \<^verbatim>\<open>realize\<close> is empty in a constant class. In \<^verbatim>\<open>RealExprPlacementRep\<close> and
  \<^verbatim>\<open>Vec3ExprPlacementRep\<close> it is
  \<^verbatim>\<open>exprRealize(); updValueSlot().set(Ops::downcast(exprGetFunc()).apply(exprGetArgs()));\<close>
  in the station, direction and orientation expression classes it is
  \<^verbatim>\<open>{exprRealize();}\<close>. \<^verbatim>\<open>FrameExprPlacementRep\<close> asserts its slot, realizes
  \<open>orientation\<close>, then \<open>origin\<close>, reads both values and sets
  \<^verbatim>\<open>Mat34(ori(0), ori(1), ori(2), origin value)\<close>.
\<close>

fun realize :: "'r Collaborators \<Rightarrow> 'r PlacementRep \<Rightarrow> 'r Cache \<Rightarrow> error + 'r Cache"
  and exprRealize :: "'r Collaborators \<Rightarrow> 'r PlacementRep list \<Rightarrow> 'r Cache \<Rightarrow> error + 'r Cache" where
  "realize C (RealConstantPlacementRep b v) \<sigma> = Inr \<sigma>"
| "realize C (RealFeaturePlacementRep b r) \<sigma> = realize_feature C T_Real b r \<sigma>"
| "realize C (RealExprPlacementRep b k args) \<sigma> =
     (case exprRealize C args \<sigma> of
        Inl e \<Rightarrow> Inl e
      | Inr \<sigma>1 \<Rightarrow> (case RealOps_apply k args of
                     Inl e \<Rightarrow> Inl e
                   | Inr x \<Rightarrow> updValueSlot_set T_Real b (RealValue x) \<sigma>1))"
| "realize C (Vec3ConstantPlacementRep b v) \<sigma> = Inr \<sigma>"
| "realize C (Vec3FeaturePlacementRep b r) \<sigma> = realize_feature C T_Vec3 b r \<sigma>"
| "realize C (Vec3ExprPlacementRep b k args) \<sigma> =
     (case exprRealize C args \<sigma> of
        Inl e \<Rightarrow> Inl e
      | Inr \<sigma>1 \<Rightarrow> (case Vec3Ops_apply k args of
                     Inl e \<Rightarrow> Inl e
                   | Inr x \<Rightarrow> updValueSlot_set T_Vec3 b (Vec3Value x) \<sigma>1))"
| "realize C (StationConstantPlacementRep b v) \<sigma> = Inr \<sigma>"
| "realize C (StationFeaturePlacementRep b r) \<sigma> = realize_feature C T_Vec3 b r \<sigma>"
| "realize C (StationExprPlacementRep b k args) \<sigma> = exprRealize C args \<sigma>"
| "realize C (DirectionConstantPlacementRep b v) \<sigma> = Inr \<sigma>"
| "realize C (DirectionFeaturePlacementRep b r) \<sigma> = realize_feature C T_Vec3 b r \<sigma>"
| "realize C (DirectionExprPlacementRep b k args) \<sigma> = exprRealize C args \<sigma>"
| "realize C (OrientationConstantPlacementRep b m) \<sigma> = Inr \<sigma>"
| "realize C (OrientationFeaturePlacementRep b r) \<sigma> = realize_feature C T_Mat33 b r \<sigma>"
| "realize C (OrientationExprPlacementRep b k args) \<sigma> = exprRealize C args \<sigma>"
| "realize C (FrameFeaturePlacementRep b r) \<sigma> = realize_feature C T_Mat34 b r \<sigma>"
| "realize C (FrameExprPlacementRep b orientation origin) \<sigma> =
     (if \<not> hasValueSlot b then Inl AssertionFailed
      else case realize C orientation \<sigma> of
             Inl e \<Rightarrow> Inl e
           | Inr \<sigma>1 \<Rightarrow>
               (case realize C origin \<sigma>1 of
                  Inl e \<Rightarrow> Inl e
                | Inr \<sigma>2 \<Rightarrow>
                    (case getValue_Mat33 orientation \<sigma>2 of
                       Inl e \<Rightarrow> Inl e
                     | Inr ori \<Rightarrow>
                         (case getValue_Vec3 origin \<sigma>2 of
                            Inl e \<Rightarrow> Inl e
                          | Inr org \<Rightarrow>
                              updValueSlot_set T_Mat34 b
                                (Mat34Value (Mat34_from_cols (Mat33_col ori 0) (Mat33_col ori 1)
                                               (Mat33_col ori 2) org)) \<sigma>2))))"
| "exprRealize C [] \<sigma> = Inr \<sigma>"
| "exprRealize C (a # as) \<sigma> =
     (case realize C a \<sigma> of Inl e \<Rightarrow> Inl e | Inr \<sigma>1 \<Rightarrow> exprRealize C as \<sigma>1)"

subsection \<open>Ancestor lookup\<close>

text \<open>
  \<^verbatim>\<open>findAncestorFeature\<close> returns a \<^verbatim>\<open>const Feature*\<close>, null being \<open>None\<close>. Each
  constant class has \<^verbatim>\<open>{assert(false); return 0;}\<close> under the comment "not allowed
  for constants"; the other classes pass the call to a helper whose body is elsewhere.
\<close>

fun findAncestorFeature ::
  "'r Collaborators \<Rightarrow> 'r PlacementRep \<Rightarrow> Feature \<Rightarrow> error + Feature option" where
  "findAncestorFeature C (RealConstantPlacementRep b v) rootFeature = Inl AssertionFailed"
| "findAncestorFeature C (RealFeaturePlacementRep b r) rootFeature = refFindAncestorFeature C r rootFeature"
| "findAncestorFeature C (RealExprPlacementRep b k args) rootFeature = exprFindAncestorFeature C args rootFeature"
| "findAncestorFeature C (Vec3ConstantPlacementRep b v) rootFeature = Inl AssertionFailed"
| "findAncestorFeature C (Vec3FeaturePlacementRep b r) rootFeature = refFindAncestorFeature C r rootFeature"
| "findAncestorFeature C (Vec3ExprPlacementRep b k args) rootFeature = exprFindAncestorFeature C args rootFeature"
| "findAncestorFeature C (StationConstantPlacementRep b v) rootFeature = Inl AssertionFailed"
| "findAncestorFeature C (StationFeaturePlacementRep b r) rootFeature = refFindAncestorFeature C r rootFeature"
| "findAncestorFeature C (StationExprPlacementRep b k args) rootFeature = exprFindAncestorFeature C args rootFeature"
| "findAncestorFeature C (DirectionConstantPlacementRep b v) rootFeature = Inl AssertionFailed"
| "findAncestorFeature C (DirectionFeaturePlacementRep b r) rootFeature = refFindAncestorFeature C r rootFeature"
| "findAncestorFeature C (DirectionExprPlacementRep b k args) rootFeature = exprFindAncestorFeature C args rootFeature"
| "findAncestorFeature C (OrientationConstantPlacementRep b m) rootFeature = Inl AssertionFailed"
| "findAncestorFeature C (OrientationFeaturePlacementRep b r) rootFeature = refFindAncestorFeature C r rootFeature"
| "findAncestorFeature C (OrientationExprPlacementRep b k args) rootFeature = exprFindAncestorFeature C args rootFeature"
| "findAncestorFeature C (FrameFeaturePlacementRep b r) rootFeature = refFindAncestorFeature C r rootFeature"
| "findAncestorFeature C (FrameExprPlacementRep b orientation origin) rootFeature =
     frameFindAncestorFeature C orientation origin rootFeature"

subsection \<open>Construction\<close>

text \<open>
  The constructors of the constant classes and of \<^verbatim>\<open>FrameExprPlacementRep\<close>. The one
  of \<^verbatim>\<open>DirectionConstantPlacementRep\<close> divides its argument by its norm, an operation
  of the linear algebra library that is a parameter here.
\<close>

definition new_RealConstantPlacementRep :: "'r \<Rightarrow> 'r PlacementRep" where
  "new_RealConstantPlacementRep r = RealConstantPlacementRep PlacementRep_init r"

definition new_Vec3ConstantPlacementRep :: "'r Vec3 \<Rightarrow> 'r PlacementRep" where
  "new_Vec3ConstantPlacementRep r = Vec3ConstantPlacementRep PlacementRep_init r"

definition new_StationConstantPlacementRep :: "'r Vec3 \<Rightarrow> 'r PlacementRep" where
  "new_StationConstantPlacementRep v = StationConstantPlacementRep PlacementRep_init v"

definition new_DirectionConstantPlacementRep :: "('r Vec3 \<Rightarrow> 'r Vec3) \<Rightarrow> 'r Vec3 \<Rightarrow> 'r PlacementRep" where
  "new_DirectionConstantPlacementRep divideByNorm v =
     DirectionConstantPlacementRep PlacementRep_init (divideByNorm v)"

definition new_OrientationConstantPlacementRep :: "'r Mat33 \<Rightarrow> 'r PlacementRep" where
  "new_OrientationConstantPlacementRep m = OrientationConstantPlacementRep PlacementRep_init m"

definition new_FrameExprPlacementRep :: "'r PlacementRep \<Rightarrow> 'r PlacementRep \<Rightarrow> 'r PlacementRep" where
  "new_FrameExprPlacementRep orientation origin =
     FrameExprPlacementRep PlacementRep_init orientation origin"

subsection \<open>Casting a station reference to a frame\<close>

text \<open>
  Modelled from the spec: the constructor \<^verbatim>\<open>FramePlacement(const Orientation&, const Station&)\<close>
  of the handle class, which is not among the sources: the frame placement that pairs
  (a reference to) the orientation Feature with (a reference to) the station Feature as
  origin.
\<close>

definition FramePlacement_of :: "Feature \<Rightarrow> Feature \<Rightarrow> 'r PlacementRep" where
  "FramePlacement_of orientationFeature stationFeature =
     new_FrameExprPlacementRep
       (OrientationFeaturePlacementRep PlacementRep_init \<lparr>feature = orientationFeature, index = -1\<rparr>)
       (StationFeaturePlacementRep PlacementRep_init \<lparr>feature = stationFeature, index = -1\<rparr>)"

text \<open>
  \<^verbatim>\<open>StationFeaturePlacementRep::castToFramePlacement\<close>: the four-part test, then the
  frame placement of the parent's orientation and the referenced station, else
  \<^verbatim>\<open>SIMTK_THROW3(Exception::FeatureUsedAsFramePlacementMustBeOnFrame, getFullName(),
  getFeatureTypeName(), "Orientation")\<close>. The condition is evaluated left to right
  and stops at the first part that fails.
\<close>

definition StationFeaturePlacementRep_castToFramePlacement ::
  "'r Collaborators \<Rightarrow> FeatureReference \<Rightarrow> error + 'r PlacementRep" where
  "StationFeaturePlacementRep_castToFramePlacement C r =
     (if \<not> isIndexed r
         \<and> Station_isInstanceOf C (getReferencedFeature r)
         \<and> hasParentFeature C (getReferencedFeature r)
         \<and> Frame_isInstanceOf C (getParentFeature C (getReferencedFeature r))
      then Inr (FramePlacement_of
                  (Frame_getOrientation C (getParentFeature C (getReferencedFeature r)))
                  (getReferencedFeature r))
      else Inl (FeatureUsedAsFramePlacementMustBeOnFrame
                  (getFullName C (getReferencedFeature r))
                  (getFeatureTypeName C (getReferencedFeature r))
                  ''Orientation''))"

subsection \<open>Cloning\<close>

text \<open>
  \<^verbatim>\<open>clone\<close> is \<^verbatim>\<open>new Class(*this)\<close> in every class, with the default copy
  constructor: a copy of every member, the four of the base class included.

  \<^verbatim>\<open>cloneUnownedWithNewHandle(p)\<close> clones, points the clone at the handle \<open>p\<close>,
  clears its owner and index, and gives the clone to \<open>p\<close> (\<^verbatim>\<open>p.setRep(pr)\<close>): the
  handles are a map from the address of a handle to the node it holds.
\<close>

definition clone :: "'r PlacementRep \<Rightarrow> 'r PlacementRep" where
  "clone r = r"

type_synonym 'r Handles = "nat \<rightharpoonup> 'r PlacementRep"

definition cloneUnownedWithNewHandle ::
  "'r PlacementRep \<Rightarrow> nat \<Rightarrow> 'r Handles \<Rightarrow> 'r Handles" where
  "cloneUnownedWithNewHandle r p H =
     (let pr = clone r;
          pr1 = with_base pr ((base pr)\<lparr>myHandle := Some p\<rparr>);
          pr2 = with_base pr1 ((base pr1)\<lparr>owner := None, indexInOwner := -1\<rparr>)
      in H(p \<mapsto> pr2))"

subsection \<open>Example inputs\<close>

text \<open>
  A small Feature tree: Feature 0 is a frame named ``body'', Feature 1 a station on
  it, Feature 2 the orientation of the frame, Feature 3 a real parameter with no
  parent. A reference is realized already, and its value is given by the Feature.
\<close>

definition demo :: "real Collaborators" where
  "demo = \<lparr>
     Station_isInstanceOf = (\<lambda>f. f = Feature 1),
     Frame_isInstanceOf = (\<lambda>f. f = Feature 0),
     hasParentFeature = (\<lambda>f. f = Feature 1 \<or> f = Feature 2),
     getParentFeature = (\<lambda>f. Feature 0),
     Frame_getOrientation = (\<lambda>f. Feature 2),
     getFullName = (\<lambda>f. if f = Feature 0 then ''body'' else if f = Feature 1 then ''body/tip''
                         else if f = Feature 2 then ''body/orientation'' else ''mass''),
     getFeatureTypeName = (\<lambda>f. if f = Feature 0 then ''Frame'' else if f = Feature 1 then ''Station''
                         else if f = Feature 2 then ''Orientation'' else ''RealParameter''),
     Feature_dependsOn = (\<lambda>f g. f = g),
     refRealize = (\<lambda>r \<sigma>. Inr \<sigma>),
     getReferencedValue = (\<lambda>r \<sigma>.
        if feature r = Feature 1 then Inr (Vec3Value (1, 2, 3))
        else if feature r = Feature 2 then Inr (Mat33Value ((1, 0, 0), (0, 1, 0), (0, 0, 1)))
        else if feature r = Feature 3 then Inr (RealValue 5)
        else Inl AssertionFailed),
     refFindAncestorFeature = (\<lambda>r rootFeature. Inr (Some rootFeature)),
     exprFindAncestorFeature = (\<lambda>args rootFeature. Inr (Some rootFeature)),
     frameFindAncestorFeature = (\<lambda>orientation origin rootFeature. Inr (Some rootFeature))
   \<rparr>"

text \<open>A base with the slot at address \<open>p\<close> assigned, and slots that were never set.\<close>

definition slotted :: "nat \<Rightarrow> PlacementRep_base" where
  "slotted p = assignValueSlot p PlacementRep_init"

definition unset_Real :: "real PlacementValueRep" where
  "unset_Real = \<lparr>valid = False, stored = RealValue 0\<rparr>"

definition unset_Vec3 :: "real PlacementValueRep" where
  "unset_Vec3 = \<lparr>valid = False, stored = Vec3Value (0, 0, 0)\<rparr>"

definition unset_Mat33 :: "real PlacementValueRep" where
  "unset_Mat33 = \<lparr>valid = False, stored = Mat33Value ((0, 0, 0), (0, 0, 0), (0, 0, 0))\<rparr>"

definition unset_Mat34 :: "real PlacementValueRep" where
  "unset_Mat34 = \<lparr>valid = False, stored = Mat34Value ((0, 0, 0), (0, 0, 0), (0, 0, 0), (0, 0, 0))\<rparr>"

text \<open>
  The station expression \<open>add<Station>(Station[1,0,0], Vec3[0,1,0])\<close> with the slot 0,
  and a cache in which that slot was never set.
\<close>

definition station_sum :: "real PlacementRep" where
  "station_sum =
     StationExprPlacementRep (slotted 0) Station_Add
       [new_StationConstantPlacementRep (1, 0, 0), new_Vec3ConstantPlacementRep (0, 1, 0)]"

definition cache0 :: "real Cache" where
  "cache0 = [0 \<mapsto> unset_Vec3]"

text \<open>
  The frame of a reference to the orientation Feature 2 (slot 1) and a reference to the
  station Feature 1 (slot 2), with the slot 3.
\<close>

definition frame_of_refs :: "real PlacementRep" where
  "frame_of_refs =
     FrameExprPlacementRep (slotted 3)
       (OrientationFeaturePlacementRep (slotted 1) \<lparr>feature = Feature 2, index = -1\<rparr>)
       (StationFeaturePlacementRep (slotted 2) \<lparr>feature = Feature 1, index = -1\<rparr>)"

definition cache1 :: "real Cache" where
  "cache1 = [1 \<mapsto> unset_Mat33, 2 \<mapsto> unset_Vec3, 3 \<mapsto> unset_Mat34]"

text \<open>The frame's cache after realization: the three slots set.\<close>

definition cache1_realized :: "real Cache" where
  "cache1_realized =
     [1 \<mapsto> \<lparr>valid = True, stored = Mat33Value ((1, 0, 0), (0, 1, 0), (0, 0, 1))\<rparr>,
      2 \<mapsto> \<lparr>valid = True, stored = Vec3Value (1, 2, 3)\<rparr>,
      3 \<mapsto> \<lparr>valid = True,
             stored = Mat34Value ((1, 0, 0), (0, 1, 0), (0, 0, 1), (1, 2, 3))\<rparr>]"

text \<open>
  A reference to the real parameter Feature 3 with the slot 0; the same reference owned
  by Feature 3 at index 0; and the expression \<open>negate<Real>\<close> of the reference.
\<close>

definition unrealized_ref :: "real PlacementRep" where
  "unrealized_ref = RealFeaturePlacementRep (slotted 0) \<lparr>feature = Feature 3, index = -1\<rparr>"

definition owned_ref :: "real PlacementRep" where
  "owned_ref =
     RealFeaturePlacementRep (setOwner (Feature 3) 0 (slotted 0)) \<lparr>feature = Feature 3, index = -1\<rparr>"

definition real_negate_ref :: "real PlacementRep" where
  "real_negate_ref =
     RealExprPlacementRep (slotted 1) Real_Negate
       [RealFeaturePlacementRep (slotted 0) \<lparr>feature = Feature 3, index = -1\<rparr>]"

text \<open>
  The frame of the constant orientation \<open>I\<close> and the constant station \<open>(1,2,3)\<close>, with
  the slot 3, and a cache in which that slot was never set.
\<close>

definition frame_of_constants :: "real PlacementRep" where
  "frame_of_constants =
     FrameExprPlacementRep (slotted 3)
       (new_OrientationConstantPlacementRep ((1, 0, 0), (0, 1, 0), (0, 0, 1)))
       (new_StationConstantPlacementRep (1, 2, 3))"

definition cache3 :: "real Cache" where
  "cache3 = [3 \<mapsto> unset_Mat34]"

text \<open>
  The station expression \<open>add<Station>(reference to Feature 1, Vec3[0,1,0])\<close> with the
  slot 0, its reference with the slot 2; a cache in which neither was set, and the cache
  in which only the slot of the reference is.
\<close>

definition station_ref_sum :: "real PlacementRep" where
  "station_ref_sum =
     StationExprPlacementRep (slotted 0) Station_Add
       [StationFeaturePlacementRep (slotted 2) \<lparr>feature = Feature 1, index = -1\<rparr>,
        new_Vec3ConstantPlacementRep (0, 1, 0)]"

definition cache2 :: "real Cache" where
  "cache2 = [0 \<mapsto> unset_Vec3, 2 \<mapsto> unset_Vec3]"

definition cache2_realized :: "real Cache" where
  "cache2_realized =
     [0 \<mapsto> unset_Vec3, 2 \<mapsto> \<lparr>valid = True, stored = Vec3Value (1, 2, 3)\<rparr>]"

section \<open>Properties\<close>

subsection \<open>Auxiliary facts\<close>

lemma PlacementType_UNIV: "(UNIV :: PlacementType set) = set PlacementType_enumerators"
proof
  show "(UNIV :: PlacementType set) \<subseteq> set PlacementType_enumerators"
  proof
    fix t :: PlacementType
    show "t \<in> set PlacementType_enumerators"
      by (cases t) (simp_all add: PlacementType_enumerators_def)
  qed
qed simp

lemma spec_value_kinds_and_Mat33:
  "(UNIV :: PlacementType set) = set spec_value_kinds \<union> {Mat33PlacementType}"
proof
  show "(UNIV :: PlacementType set) \<subseteq> set spec_value_kinds \<union> {Mat33PlacementType}"
  proof
    fix t :: PlacementType
    show "t \<in> set spec_value_kinds \<union> {Mat33PlacementType}"
      by (cases t) (simp_all add: spec_value_kinds_def)
  qed
qed simp

lemma exprIsConstant_iff: "exprIsConstant args = (\<forall>a\<in>set args. isConstant a)"
  by (induction args) auto

lemma exprDependsOn_iff: "exprDependsOn C args f = (\<exists>a\<in>set args. dependsOn C a f)"
  by (induction args) auto

lemma base_with_base: "base (with_base r c) = c"
  by (cases r) simp_all

lemma getValue_with_base_slot:
  "valueSlot c = valueSlot (base r) \<Longrightarrow> getValue (with_base r c) \<sigma> = getValue r \<sigma>"
  by (cases r) (simp_all add: getValue_fromSlot_def getValueSlot_def hasValueSlot_def)

lemma updValueSlot_set_Inr:
  "updValueSlot_set T b v \<sigma> = Inr \<sigma>' \<longleftrightarrow>
     (\<exists>p pv. valueSlot b = Some p \<and> \<sigma> p = Some pv \<and> typeOf (stored pv) = T \<and> typeOf v = T
        \<and> \<sigma>' = \<sigma>(p \<mapsto> \<lparr>valid = True, stored = v\<rparr>))"
  by (auto simp: updValueSlot_set_def PlacementValue_downcast_def PlacementValue_set_def
        PlacementValueRep_setValue_def split: option.splits if_splits)

text \<open>A value written through one pointer to a slot is read through any other.\<close>

lemma updValueSlot_set_reads_back:
  "updValueSlot_set T b v \<sigma> = Inr \<sigma>' \<Longrightarrow> valueSlot b' = valueSlot b \<Longrightarrow>
     getValue_fromSlot T b' \<sigma>' = Inr v"
  by (auto simp: updValueSlot_set_def getValue_fromSlot_def getValueSlot_def hasValueSlot_def
        PlacementValue_downcast_def PlacementValue_get_def PlacementValue_set_def
        PlacementValueRep_setValue_def PlacementValueRep_getValue_def isValid_def
        split: option.splits if_splits)

lemma getValue_Mat33_Inr: "getValue_Mat33 r \<sigma> = Inr m \<longleftrightarrow> getValue r \<sigma> = Inr (Mat33Value m)"
  by (auto simp: getValue_Mat33_def split: sum.splits Value.splits)

lemma getValue_Vec3_Inr: "getValue_Vec3 r \<sigma> = Inr x \<longleftrightarrow> getValue r \<sigma> = Inr (Vec3Value x)"
  by (auto simp: getValue_Vec3_def split: sum.splits Value.splits)

text \<open>
  The three constant classes that override \<^verbatim>\<open>getValue\<close> return the literal, with
  no slot and in any cache; the two that do not override it fail the assertion of the
  inherited body.
\<close>

lemma constant_getValue_overridden:
  "getValue (new_RealConstantPlacementRep x) \<sigma> = Inr (RealValue x)"
  "getValue (new_Vec3ConstantPlacementRep v) \<sigma> = Inr (Vec3Value v)"
  "getValue (new_OrientationConstantPlacementRep m) \<sigma> = Inr (Mat33Value m)"
  by (simp_all add: new_RealConstantPlacementRep_def new_Vec3ConstantPlacementRep_def
        new_OrientationConstantPlacementRep_def)

lemma constant_getValue_inherited:
  "getValue (new_StationConstantPlacementRep v) \<sigma> = Inl AssertionFailed"
  "getValue (new_DirectionConstantPlacementRep divideByNorm v) \<sigma> = Inl AssertionFailed"
  by (simp_all add: new_StationConstantPlacementRep_def new_DirectionConstantPlacementRep_def
        getValue_fromSlot_def hasValueSlot_def PlacementRep_init_def)

lemma constant_isConstant: "constructedKind p = ConstantNode \<Longrightarrow> isConstant p"
  by (cases p) simp_all

text \<open>
  With the evaluators as they are, \<^verbatim>\<open>realize\<close> of a real or 3-vector expression
  never returns normally.
\<close>

lemma RealExpr_realize_never_returns:
  "realize C (RealExprPlacementRep b k args) \<sigma> \<noteq> Inr \<sigma>'"
  "realize C (Vec3ExprPlacementRep b k3 args) \<sigma> \<noteq> Inr \<sigma>'"
  by (simp_all add: RealOps_apply_def Vec3Ops_apply_def split: sum.splits)

subsection \<open>Realizing and reading, class by class\<close>

text \<open>
  For a frame expression of an orientation placement and a station placement: it is
  constant iff both are; it depends on a Feature iff one of them does; and
  \<^verbatim>\<open>realize\<close> returns normally exactly when the node has a slot, the orientation
  is realized first, the station is realized next in the cache the orientation left, both
  values can then be read, and the slot is a \<^verbatim>\<open>Mat34\<close> slot; the cache it returns is
  then the one the station left with the node's slot set to the three columns of the
  orientation followed by the station as fourth column. When realizing the orientation
  fails, that error is the result and the station is not realized; when the station
  fails, its error is the result.
\<close>

lemma FrameExpr_isConstant_dependsOn_realize:
  "isConstant (FrameExprPlacementRep b orientation origin)
     = (isConstant orientation \<and> isConstant origin)
   \<and> dependsOn C (FrameExprPlacementRep b orientation origin) f
       = (dependsOn C orientation f \<or> dependsOn C origin f)
   \<and> (realize C (FrameExprPlacementRep b orientation origin) \<sigma> = Inr \<sigma>' \<longleftrightarrow>
        (\<exists>p pv \<sigma>1 \<sigma>2 ori org.
            valueSlot b = Some p
          \<and> realize C orientation \<sigma> = Inr \<sigma>1
          \<and> realize C origin \<sigma>1 = Inr \<sigma>2
          \<and> getValue orientation \<sigma>2 = Inr (Mat33Value ori)
          \<and> getValue origin \<sigma>2 = Inr (Vec3Value org)
          \<and> \<sigma>2 p = Some pv \<and> typeOf (stored pv) = T_Mat34
          \<and> \<sigma>' = \<sigma>2(p \<mapsto> \<lparr>valid = True,
                 stored = Mat34Value (Mat33_col ori 0, Mat33_col ori 1, Mat33_col ori 2, org)\<rparr>)))
   \<and> (hasValueSlot b \<and> realize C orientation \<sigma> = Inl e
        \<longrightarrow> realize C (FrameExprPlacementRep b orientation origin) \<sigma> = Inl e)
   \<and> (hasValueSlot b \<and> realize C orientation \<sigma> = Inr \<sigma>1 \<and> realize C origin \<sigma>1 = Inl e
        \<longrightarrow> realize C (FrameExprPlacementRep b orientation origin) \<sigma> = Inl e)"
proof -
  have r: "realize C (FrameExprPlacementRep b orientation origin) \<sigma> = Inr \<sigma>' \<longleftrightarrow>
        (\<exists>p pv \<sigma>1 \<sigma>2 ori org.
            valueSlot b = Some p
          \<and> realize C orientation \<sigma> = Inr \<sigma>1
          \<and> realize C origin \<sigma>1 = Inr \<sigma>2
          \<and> getValue orientation \<sigma>2 = Inr (Mat33Value ori)
          \<and> getValue origin \<sigma>2 = Inr (Vec3Value org)
          \<and> \<sigma>2 p = Some pv \<and> typeOf (stored pv) = T_Mat34
          \<and> \<sigma>' = \<sigma>2(p \<mapsto> \<lparr>valid = True,
                 stored = Mat34Value (Mat33_col ori 0, Mat33_col ori 1, Mat33_col ori 2, org)\<rparr>))"
    (is "?L = ?R")
  proof
    assume ?L
    then show ?R
      by (auto simp: hasValueSlot_def updValueSlot_set_Inr getValue_Mat33_Inr getValue_Vec3_Inr
            Mat34_from_cols_def split: if_splits sum.splits)
  next
    assume ?R
    then obtain p pv \<sigma>1 \<sigma>2 ori org where h:
      "valueSlot b = Some p" "realize C orientation \<sigma> = Inr \<sigma>1" "realize C origin \<sigma>1 = Inr \<sigma>2"
      "getValue orientation \<sigma>2 = Inr (Mat33Value ori)" "getValue origin \<sigma>2 = Inr (Vec3Value org)"
      "\<sigma>2 p = Some pv" "typeOf (stored pv) = T_Mat34"
      "\<sigma>' = \<sigma>2(p \<mapsto> \<lparr>valid = True,
                 stored = Mat34Value (Mat33_col ori 0, Mat33_col ori 1, Mat33_col ori 2, org)\<rparr>)"
      by blast
    have m: "getValue_Mat33 orientation \<sigma>2 = Inr ori"
      using h(4) by (simp add: getValue_Mat33_Inr)
    have v: "getValue_Vec3 origin \<sigma>2 = Inr org"
      using h(5) by (simp add: getValue_Vec3_Inr)
    show ?L
      using h(1,2,3,6,7,8) m v
      by (simp add: hasValueSlot_def updValueSlot_set_Inr Mat34_from_cols_def)
  qed
  show ?thesis
    using r by simp
qed

text \<open>
  At the frame of two references, in the example tree: realizing it sets the slot of
  the orientation, then the slot of the station, then its own to the identity columns
  followed by \<open>(1,2,3)\<close>; the frame is not constant and depends on the station Feature.
\<close>

lemma FrameExpr_realize_of_refs:
  "realize demo frame_of_refs cache1 = Inr cache1_realized
   \<and> \<not> isConstant frame_of_refs
   \<and> dependsOn demo frame_of_refs (Feature 1)
   \<and> \<not> dependsOn demo frame_of_refs (Feature 3)"
proof -
  let ?o = "OrientationFeaturePlacementRep (slotted 1) \<lparr>feature = Feature 2, index = -1\<rparr>
              :: real PlacementRep"
  let ?s = "StationFeaturePlacementRep (slotted 2) \<lparr>feature = Feature 1, index = -1\<rparr>
              :: real PlacementRep"
  let ?c1 = "cache1(1 \<mapsto> \<lparr>valid = True, stored = Mat33Value ((1, 0, 0), (0, 1, 0), (0, 0, 1))\<rparr>)"
  let ?c2 = "?c1(2 \<mapsto> \<lparr>valid = True, stored = Vec3Value (1, 2, 3)\<rparr>)"
  have o: "realize demo ?o cache1 = Inr ?c1"
    by (simp add: realize_feature_def hasValueSlot_def slotted_def assignValueSlot_def demo_def
          updValueSlot_set_def PlacementValue_downcast_def cache1_def unset_Mat33_def
          PlacementValue_set_def PlacementValueRep_setValue_def)
  have s: "realize demo ?s ?c1 = Inr ?c2"
    by (simp add: realize_feature_def hasValueSlot_def slotted_def assignValueSlot_def demo_def
          updValueSlot_set_def PlacementValue_downcast_def cache1_def unset_Vec3_def
          PlacementValue_set_def PlacementValueRep_setValue_def)
  have vo: "getValue ?o ?c2 = Inr (Mat33Value ((1, 0, 0), (0, 1, 0), (0, 0, 1)))"
    by (simp add: getValue_fromSlot_def getValueSlot_def hasValueSlot_def slotted_def
          assignValueSlot_def PlacementValue_downcast_def PlacementValue_get_def isValid_def
          PlacementValueRep_getValue_def)
  have vs: "getValue ?s ?c2 = Inr (Vec3Value (1, 2, 3))"
    by (simp add: getValue_fromSlot_def getValueSlot_def hasValueSlot_def slotted_def
          assignValueSlot_def PlacementValue_downcast_def PlacementValue_get_def isValid_def
          PlacementValueRep_getValue_def)
  have e: "cache1_realized = ?c2(3 \<mapsto> \<lparr>valid = True,
             stored = Mat34Value (Mat33_col ((1, 0, 0), (0, 1, 0), (0, 0, 1)) 0,
                                  Mat33_col ((1, 0, 0), (0, 1, 0), (0, 0, 1)) 1,
                                  Mat33_col ((1, 0, 0), (0, 1, 0), (0, 0, 1)) 2, (1, 2, 3))\<rparr>)"
    by (rule ext) (simp add: cache1_realized_def cache1_def)
  have x: "\<exists>p pv \<sigma>1 \<sigma>2 ori org.
            valueSlot (slotted 3) = Some p
          \<and> realize demo ?o cache1 = Inr \<sigma>1
          \<and> realize demo ?s \<sigma>1 = Inr \<sigma>2
          \<and> getValue ?o \<sigma>2 = Inr (Mat33Value ori)
          \<and> getValue ?s \<sigma>2 = Inr (Vec3Value org)
          \<and> \<sigma>2 p = Some pv \<and> typeOf (stored pv) = T_Mat34
          \<and> cache1_realized = \<sigma>2(p \<mapsto> \<lparr>valid = True,
                 stored = Mat34Value (Mat33_col ori 0, Mat33_col ori 1, Mat33_col ori 2, org)\<rparr>)"
    apply (rule exI [of _ 3])
    apply (rule exI [of _ unset_Mat34])
    apply (rule exI [of _ ?c1])
    apply (rule exI [of _ ?c2])
    apply (rule exI [of _ "((1, 0, 0), (0, 1, 0), (0, 0, 1))"])
    apply (rule exI [of _ "(1, 2, 3)"])
    apply (simp only: o s vo vs e [symmetric])
    apply (simp add: slotted_def assignValueSlot_def unset_Mat34_def cache1_def)
    done
  note t1 = FrameExpr_isConstant_dependsOn_realize
              [of "slotted 3" ?o ?s demo "Feature 1" cache1 cache1_realized]
  note t3 = FrameExpr_isConstant_dependsOn_realize
              [of "slotted 3" ?o ?s demo "Feature 3" cache1 cache1_realized]
  have r: "realize demo frame_of_refs cache1 = Inr cache1_realized"
    unfolding frame_of_refs_def
    by (rule t1 [THEN conjunct2, THEN conjunct2, THEN conjunct1, THEN iffD2, OF x])
  have c: "\<not> isConstant frame_of_refs"
    unfolding frame_of_refs_def
    by (simp only: t1 [THEN conjunct1]) (simp add: refIsConstant_def)
  have d1: "dependsOn demo frame_of_refs (Feature 1)"
    unfolding frame_of_refs_def
    by (simp only: t1 [THEN conjunct2, THEN conjunct1]) (simp add: refDependsOn_def demo_def)
  have d3: "\<not> dependsOn demo frame_of_refs (Feature 3)"
    unfolding frame_of_refs_def
    by (simp only: t3 [THEN conjunct2, THEN conjunct1]) (simp add: refDependsOn_def demo_def)
  from r c d1 d3 show ?thesis by simp
qed

text \<open>
  For a node that is not of a constant class: when its slot has not been set,
  \<^verbatim>\<open>getValue\<close> fails; whatever \<^verbatim>\<open>getValue\<close> returns is the value of the
  node's slot, which is valid; and when the slot is valid and of the node's type,
  \<^verbatim>\<open>getValue\<close> returns its value.
\<close>

lemma getValue_before_realize_fails:
  "constructedKind p \<noteq> ConstantNode \<Longrightarrow>
     (\<not> slotIsValid (base p) \<sigma> \<longrightarrow> (\<exists>e. getValue p \<sigma> = Inl e))
   \<and> (\<forall>v. getValue p \<sigma> = Inr v \<longrightarrow>
         (\<exists>a pv. valueSlot (base p) = Some a \<and> \<sigma> a = Some pv \<and> isValid pv
                 \<and> v = PlacementValueRep_getValue pv))
   \<and> (\<forall>a pv. valueSlot (base p) = Some a \<and> \<sigma> a = Some pv \<and> isValid pv
               \<and> typeOf (stored pv) = slotType p
         \<longrightarrow> getValue p \<sigma> = Inr (PlacementValueRep_getValue pv))"
  by (cases p)
     (auto simp: getValue_fromSlot_def getValueSlot_def hasValueSlot_def slotIsValid_def
        PlacementValue_downcast_def PlacementValue_get_def split: option.splits if_splits)

text \<open>
  At the reference to Feature 3 with the slot 0: before realization the slot is not
  valid and \<^verbatim>\<open>getValue\<close> fails; realization sets the slot to the value 5 of the
  Feature, and \<^verbatim>\<open>getValue\<close> then returns 5.
\<close>

lemma getValue_of_ref_before_and_after_realize:
  "constructedKind unrealized_ref \<noteq> ConstantNode
   \<and> \<not> slotIsValid (base unrealized_ref) [0 \<mapsto> unset_Real]
   \<and> (\<exists>e. getValue unrealized_ref [0 \<mapsto> unset_Real] = Inl e)
   \<and> realize demo unrealized_ref [0 \<mapsto> unset_Real] = Inr [0 \<mapsto> \<lparr>valid = True, stored = RealValue 5\<rparr>]
   \<and> getValue unrealized_ref [0 \<mapsto> \<lparr>valid = True, stored = RealValue 5\<rparr>] = Inr (RealValue 5)"
proof -
  have k: "constructedKind unrealized_ref \<noteq> ConstantNode"
    by (simp add: unrealized_ref_def)
  have n: "\<not> slotIsValid (base unrealized_ref) [0 \<mapsto> unset_Real]"
    by (simp add: unrealized_ref_def slotIsValid_def slotted_def assignValueSlot_def
          unset_Real_def isValid_def)
  have r: "realize demo unrealized_ref [0 \<mapsto> unset_Real]
             = Inr [0 \<mapsto> \<lparr>valid = True, stored = RealValue 5\<rparr>]"
    by (simp add: unrealized_ref_def realize_feature_def hasValueSlot_def slotted_def
          assignValueSlot_def demo_def updValueSlot_set_def PlacementValue_downcast_def
          unset_Real_def PlacementValue_set_def PlacementValueRep_setValue_def)
  have v: "valueSlot (base unrealized_ref) = Some 0
           \<and> [0 \<mapsto> \<lparr>valid = True, stored = RealValue (5::real)\<rparr>] 0
               = Some \<lparr>valid = True, stored = RealValue 5\<rparr>
           \<and> isValid \<lparr>valid = True, stored = RealValue (5::real)\<rparr>
           \<and> typeOf (stored \<lparr>valid = True, stored = RealValue (5::real)\<rparr>)
               = slotType unrealized_ref"
    by (simp add: unrealized_ref_def slotted_def assignValueSlot_def isValid_def)
  have e: "\<exists>e. getValue unrealized_ref [0 \<mapsto> unset_Real] = Inl e"
    by (rule getValue_before_realize_fails
               [OF k, of "[0 \<mapsto> unset_Real]", THEN conjunct1, THEN mp, OF n])
  have g: "getValue unrealized_ref [0 \<mapsto> \<lparr>valid = True, stored = RealValue 5\<rparr>]
             = Inr (PlacementValueRep_getValue \<lparr>valid = True, stored = RealValue 5\<rparr>)"
    by (rule getValue_before_realize_fails
               [OF k, of "[0 \<mapsto> \<lparr>valid = True, stored = RealValue 5\<rparr>]",
                THEN conjunct2, THEN conjunct2, THEN spec, THEN spec, THEN mp, OF v])
  have g': "getValue unrealized_ref [0 \<mapsto> \<lparr>valid = True, stored = RealValue 5\<rparr>]
             = Inr (RealValue 5)"
    using g by (simp only: PlacementValueRep_getValue_def PlacementValueRep.simps)
  from k n e r g' show ?thesis by blast
qed

text \<open>
  After a \<^verbatim>\<open>realize\<close> that returns normally, a node of a feature class and a frame
  expression read a value from their slot, which is valid.
\<close>

lemma feature_realize_then_getValue:
  "constructedKind p = FeatureNode \<Longrightarrow> realize C p \<sigma> = Inr \<sigma>' \<Longrightarrow>
     \<exists>v. getValue p \<sigma>' = Inr v \<and> slotIsValid (base p) \<sigma>'"
  by (cases p)
     (auto simp: realize_feature_def updValueSlot_set_Inr getValue_fromSlot_def getValueSlot_def
        hasValueSlot_def slotIsValid_def isValid_def PlacementValue_downcast_def
        PlacementValue_get_def PlacementValueRep_getValue_def split: sum.splits if_splits)

lemma FrameExpr_realize_then_getValue:
  "realize C (FrameExprPlacementRep b orientation origin) \<sigma> = Inr \<sigma>' \<Longrightarrow>
     \<exists>m. getValue (FrameExprPlacementRep b orientation origin) \<sigma>' = Inr (Mat34Value m)
         \<and> slotIsValid b \<sigma>'"
  by (auto simp: updValueSlot_set_Inr getValue_fromSlot_def getValueSlot_def
        hasValueSlot_def slotIsValid_def isValid_def PlacementValue_downcast_def
        PlacementValue_get_def PlacementValueRep_getValue_def Mat34_from_cols_def
        split: sum.splits if_splits)

text \<open>
  A frame expression whose origin is a station constant never realizes, whatever its
  orientation, its slot and the cache: the \<^verbatim>\<open>getValue\<close> of the origin is the
  inherited one, and the constant has no slot.
\<close>

lemma FrameExpr_constant_station_origin_never_realizes:
  "realize C (FrameExprPlacementRep b orientation (new_StationConstantPlacementRep v)) \<sigma>
     \<noteq> Inr \<sigma>'"
  by (simp add: new_StationConstantPlacementRep_def getValue_Vec3_def getValue_fromSlot_def
        hasValueSlot_def PlacementRep_init_def split: sum.splits)

subsection \<open>The claims\<close>

text \<open>
  C1. Realizing a non-constant expression node stores the node's value in its slot. On
  the code this fails for \<^verbatim>\<open>StationExprPlacementRep\<close> (and the direction and
  orientation expression classes alike): \<^verbatim>\<open>realize\<close> realizes the operands and
  returns. Here the station expression \<open>add<Station>(Station[1,0,0], Vec3[0,1,0])\<close> is
  realized in a cache where its slot was never set: the call returns the cache as it
  was, the slot is still not valid, and reading the value afterwards fails.
\<close>

theorem StationExpr_realize_leaves_slot_unset:
  "realize demo station_sum cache0 = Inr cache0
   \<and> \<not> slotIsValid (base station_sum) cache0
   \<and> getValue station_sum cache0 = Inl ValueNotValid"
  by (simp add: station_sum_def cache0_def slotted_def assignValueSlot_def PlacementRep_init_def
        new_StationConstantPlacementRep_def new_Vec3ConstantPlacementRep_def unset_Vec3_def
        slotIsValid_def isValid_def getValue_fromSlot_def getValueSlot_def hasValueSlot_def
        PlacementValue_downcast_def PlacementValue_get_def)

text \<open>
  C2, as stated: the enumeration has exactly the eleven kinds boolean, integer, real,
  2-vector, 3-vector, station, direction, orientation, frame, void and invalid. It
  fails at \<open>Mat33PlacementType\<close>, an enumerator that is none of the eleven.
\<close>

theorem spec_value_kinds_miss_Mat33:
  "Mat33PlacementType \<in> set PlacementType_enumerators
   \<and> Mat33PlacementType \<notin> set spec_value_kinds
   \<and> length PlacementType_enumerators \<noteq> length spec_value_kinds"
  by (simp add: spec_value_kinds_def PlacementType_enumerators_def)

text \<open>
  C2, amended: the value kind tag is a closed enumeration of exactly twelve kinds, the
  eleven of the claim and the 3x3 matrix kind \<open>Mat33PlacementType\<close>; their values are
  0 to 11 in the order of declaration, invalid being 0.
\<close>

theorem PlacementType_twelve_enumerators:
  "set PlacementType_enumerators = UNIV
   \<and> distinct PlacementType_enumerators
   \<and> length PlacementType_enumerators = 12
   \<and> set PlacementType_enumerators = set spec_value_kinds \<union> {Mat33PlacementType}
   \<and> map PlacementType_value PlacementType_enumerators = [0 ..< 12]"
proof -
  have a: "set PlacementType_enumerators = UNIV"
    by (simp only: PlacementType_UNIV)
  have b: "distinct PlacementType_enumerators"
    by (simp add: PlacementType_enumerators_def)
  have c: "length PlacementType_enumerators = 12"
    by (simp add: PlacementType_enumerators_def)
  have d: "set PlacementType_enumerators = set spec_value_kinds \<union> {Mat33PlacementType}"
    using a spec_value_kinds_and_Mat33 by simp
  have e: "map PlacementType_value PlacementType_enumerators = [0 ..< 12]"
    by (simp add: PlacementType_enumerators_def upt_rec)
  from a b c d e show ?thesis by blast
qed

text \<open>
  C3. A constant node returns its literal from \<^verbatim>\<open>getValue\<close> at once, without a
  slot, and is constant. On the code the station constant built from \<open>(1,0,0)\<close> is
  constant, but its \<^verbatim>\<open>getValue\<close> is the inherited one and fails the assertion
  \<^verbatim>\<open>hasValueSlot()\<close>.
\<close>

theorem StationConstant_getValue_asserts:
  "getValue (new_StationConstantPlacementRep (1, 0, 0) :: real PlacementRep) Map.empty
     = Inl AssertionFailed
   \<and> isConstant (new_StationConstantPlacementRep (1, 0, 0) :: real PlacementRep)
   \<and> \<not> hasValueSlot (base (new_StationConstantPlacementRep (1, 0, 0) :: real PlacementRep))"
  by (simp add: new_StationConstantPlacementRep_def getValue_fromSlot_def hasValueSlot_def
        PlacementRep_init_def)

text \<open>
  C4. A frame expression of an orientation and a station placement is constant iff
  both are, depends on a Feature iff one of them does, and its \<^verbatim>\<open>realize\<close>
  realizes the orientation, then the station, then stores the three columns of the
  orientation followed by the station. On the code the frame of the constant
  orientation \<open>I\<close> and the constant station \<open>(1,2,3)\<close>, with its slot assigned, is
  constant, but its \<^verbatim>\<open>realize\<close> stores nothing: reading the origin fails the
  assertion \<^verbatim>\<open>hasValueSlot()\<close> of the \<^verbatim>\<open>getValue\<close> that the station constant
  inherits.
\<close>

theorem FrameExpr_of_constants_realize_asserts:
  "realize demo frame_of_constants cache3 = Inl AssertionFailed
   \<and> hasValueSlot (base frame_of_constants)
   \<and> isConstant frame_of_constants
   \<and> \<not> slotIsValid (base frame_of_constants) cache3"
  by (simp add: frame_of_constants_def cache3_def slotted_def assignValueSlot_def
        PlacementRep_init_def new_OrientationConstantPlacementRep_def
        new_StationConstantPlacementRep_def hasValueSlot_def getValue_Mat33_def
        getValue_Vec3_def getValue_fromSlot_def slotIsValid_def unset_Mat34_def isValid_def)

text \<open>
  C5. For every expression node \<open>E\<close> with the operand list \<open>args\<close>: \<open>E\<close> is constant
  iff every operand is constant, and \<open>E\<close> depends on a Feature \<open>f\<close> iff at least one
  operand depends on \<open>f\<close>.
\<close>

theorem expr_isConstant_dependsOn:
  "exprGetArgs E = Some args \<Longrightarrow>
     (isConstant E = (\<forall>a\<in>set args. isConstant a))
     \<and> (dependsOn C E f = (\<exists>a\<in>set args. dependsOn C a f))"
  by (cases E) (simp_all add: exprIsConstant_iff exprDependsOn_iff)

text \<open>
  C5 at the station sum of two constants, which is constant and depends on nothing,
  and at the negation of a reference to Feature 3, which is not constant and depends
  on Feature 3.
\<close>

theorem expr_isConstant_dependsOn_witness:
  "exprGetArgs station_sum
     = Some [new_StationConstantPlacementRep (1, 0, 0), new_Vec3ConstantPlacementRep (0, 1, 0)]
   \<and> isConstant station_sum \<and> \<not> dependsOn demo station_sum (Feature 3)
   \<and> exprGetArgs real_negate_ref
     = Some [RealFeaturePlacementRep (slotted 0) \<lparr>feature = Feature 3, index = -1\<rparr>]
   \<and> \<not> isConstant real_negate_ref \<and> dependsOn demo real_negate_ref (Feature 3)"
proof -
  have a: "exprGetArgs station_sum
     = Some [new_StationConstantPlacementRep (1, 0, 0), new_Vec3ConstantPlacementRep (0, 1, 0)]"
    by (simp add: station_sum_def)
  have b: "exprGetArgs real_negate_ref
     = Some [RealFeaturePlacementRep (slotted 0) \<lparr>feature = Feature 3, index = -1\<rparr>]"
    by (simp add: real_negate_ref_def)
  show ?thesis
    using a b expr_isConstant_dependsOn [OF a, of demo "Feature 3"]
          expr_isConstant_dependsOn [OF b, of demo "Feature 3"]
    by (simp add: new_StationConstantPlacementRep_def new_Vec3ConstantPlacementRep_def
          refIsConstant_def refDependsOn_def demo_def)
qed

text \<open>
  C6, as stated: the cast of a station reference to a frame succeeds exactly when the
  referenced Feature is a station and its parent is a frame. It fails at the reference
  to the station Feature 1, whose parent is the frame Feature 0, with the index 0: both
  conditions hold and the cast throws.
\<close>

theorem indexed_station_reference_cast_fails:
  "Station_isInstanceOf demo (getReferencedFeature \<lparr>feature = Feature 1, index = 0\<rparr>)
   \<and> hasParentFeature demo (getReferencedFeature \<lparr>feature = Feature 1, index = 0\<rparr>)
   \<and> Frame_isInstanceOf demo
        (getParentFeature demo (getReferencedFeature \<lparr>feature = Feature 1, index = 0\<rparr>))
   \<and> StationFeaturePlacementRep_castToFramePlacement demo \<lparr>feature = Feature 1, index = 0\<rparr>
       = Inl (FeatureUsedAsFramePlacementMustBeOnFrame ''body/tip'' ''Station'' ''Orientation'')"
  by (simp add: StationFeaturePlacementRep_castToFramePlacement_def demo_def isIndexed_def
        getReferencedFeature_def)

text \<open>
  C6, amended: the cast of a station reference to a frame succeeds exactly when the
  reference is not indexed, the referenced Feature is a station, it has a parent, and
  the parent is a frame. The result is then the frame placement of the parent's
  orientation and the referenced station as origin. Every other cast of a station
  reference fails with \<open>FeatureUsedAsFramePlacementMustBeOnFrame\<close>, which carries
  the full name of the referenced Feature, its type name, and ``Orientation''.
\<close>

theorem castToFramePlacement_succeeds_iff:
  "((\<exists>fp. StationFeaturePlacementRep_castToFramePlacement C r = Inr fp) \<longleftrightarrow>
       \<not> isIndexed r
     \<and> Station_isInstanceOf C (getReferencedFeature r)
     \<and> hasParentFeature C (getReferencedFeature r)
     \<and> Frame_isInstanceOf C (getParentFeature C (getReferencedFeature r)))
   \<and> (\<forall>fp. StationFeaturePlacementRep_castToFramePlacement C r = Inr fp \<longrightarrow>
         fp = FrameExprPlacementRep PlacementRep_init
                (OrientationFeaturePlacementRep PlacementRep_init
                   \<lparr>feature = Frame_getOrientation C (getParentFeature C (getReferencedFeature r)),
                    index = -1\<rparr>)
                (StationFeaturePlacementRep PlacementRep_init
                   \<lparr>feature = getReferencedFeature r, index = -1\<rparr>))
   \<and> (\<forall>e. StationFeaturePlacementRep_castToFramePlacement C r = Inl e \<longrightarrow>
         e = FeatureUsedAsFramePlacementMustBeOnFrame
               (getFullName C (getReferencedFeature r))
               (getFeatureTypeName C (getReferencedFeature r)) ''Orientation'')"
  by (simp add: StationFeaturePlacementRep_castToFramePlacement_def FramePlacement_of_def
        new_FrameExprPlacementRep_def)

text \<open>
  C6, amended, in the example tree: the unindexed reference to the station Feature 1
  casts to the frame of the orientation Feature 2 and Feature 1; the reference to the
  real parameter Feature 3 fails with the error that names it.
\<close>

theorem castToFramePlacement_witness:
  "StationFeaturePlacementRep_castToFramePlacement demo \<lparr>feature = Feature 1, index = -1\<rparr>
     = Inr (FrameExprPlacementRep PlacementRep_init
              (OrientationFeaturePlacementRep PlacementRep_init \<lparr>feature = Feature 2, index = -1\<rparr>)
              (StationFeaturePlacementRep PlacementRep_init \<lparr>feature = Feature 1, index = -1\<rparr>))
   \<and> StationFeaturePlacementRep_castToFramePlacement demo \<lparr>feature = Feature 3, index = -1\<rparr>
     = Inl (FeatureUsedAsFramePlacementMustBeOnFrame ''mass'' ''RealParameter'' ''Orientation'')"
proof -
  note t1 = castToFramePlacement_succeeds_iff [of demo "\<lparr>feature = Feature 1, index = -1\<rparr>"]
  note t3 = castToFramePlacement_succeeds_iff [of demo "\<lparr>feature = Feature 3, index = -1\<rparr>"]
  have a: "\<exists>fp. StationFeaturePlacementRep_castToFramePlacement demo
                  \<lparr>feature = Feature 1, index = -1\<rparr> = Inr fp"
    using t1 by (simp add: demo_def isIndexed_def getReferencedFeature_def)
  have b: "\<not> (\<exists>fp. StationFeaturePlacementRep_castToFramePlacement demo
                     \<lparr>feature = Feature 3, index = -1\<rparr> = Inr fp)"
    using t3 by (simp add: demo_def isIndexed_def getReferencedFeature_def)
  then obtain e where e:
    "StationFeaturePlacementRep_castToFramePlacement demo \<lparr>feature = Feature 3, index = -1\<rparr> = Inl e"
    by (cases "StationFeaturePlacementRep_castToFramePlacement demo
                 \<lparr>feature = Feature 3, index = -1\<rparr>") auto
  from a obtain fp where fp:
    "StationFeaturePlacementRep_castToFramePlacement demo \<lparr>feature = Feature 1, index = -1\<rparr> = Inr fp"
    by blast
  show ?thesis
    using t1 fp t3 e by (simp add: demo_def getReferencedFeature_def)
qed

text \<open>
  C7. \<^verbatim>\<open>getValue\<close> on a non-constant node fails before the node is realized and
  reads the value from the slot after. On the code the second half fails at the station
  expression \<open>add<Station>(reference to Feature 1, Vec3[0,1,0])\<close>, which is not
  constant: \<^verbatim>\<open>realize\<close> returns normally, having set the slot of the reference and
  not the slot of the expression, which still holds what it held and is not valid, and
  \<^verbatim>\<open>getValue\<close> after it reads no realized value.
\<close>

theorem StationExpr_getValue_after_realize_fails:
  "constructedKind station_ref_sum \<noteq> ConstantNode
   \<and> \<not> isConstant station_ref_sum
   \<and> realize demo station_ref_sum cache2 = Inr cache2_realized
   \<and> cache2_realized 0 = Some unset_Vec3
   \<and> \<not> slotIsValid (base station_ref_sum) cache2_realized
   \<and> getValue station_ref_sum cache2_realized = Inl ValueNotValid"
proof -
  have r: "realize demo station_ref_sum cache2 = Inr cache2_realized"
    by (simp add: station_ref_sum_def realize_feature_def hasValueSlot_def slotted_def
          assignValueSlot_def demo_def updValueSlot_set_def PlacementValue_downcast_def
          cache2_def cache2_realized_def unset_Vec3_def PlacementValue_set_def
          PlacementValueRep_setValue_def new_Vec3ConstantPlacementRep_def)
  have k: "constructedKind station_ref_sum \<noteq> ConstantNode \<and> \<not> isConstant station_ref_sum"
    by (simp add: station_ref_sum_def refIsConstant_def)
  have s: "cache2_realized 0 = Some unset_Vec3"
    by (simp add: cache2_realized_def)
  have n: "\<not> slotIsValid (base station_ref_sum) cache2_realized"
    by (simp add: station_ref_sum_def slotIsValid_def slotted_def assignValueSlot_def
          cache2_realized_def unset_Vec3_def isValid_def)
  have g: "getValue station_ref_sum cache2_realized = Inl ValueNotValid"
    by (simp add: station_ref_sum_def getValue_fromSlot_def getValueSlot_def hasValueSlot_def
          slotted_def assignValueSlot_def cache2_realized_def unset_Vec3_def
          PlacementValue_downcast_def PlacementValue_get_def isValid_def)
  from r k s n g show ?thesis by simp
qed

text \<open>
  C8. \<^verbatim>\<open>findAncestorFeature\<close> on a node of a constant class, of any kind and for
  any root, fails the assertion; it returns no Feature.
\<close>

theorem constant_findAncestorFeature_fails:
  "constructedKind p = ConstantNode \<Longrightarrow>
     findAncestorFeature C p rootFeature = Inl AssertionFailed"
  by (cases p) simp_all

text \<open>C8 at the station constant \<open>(1,0,0)\<close> and the root Feature 0.\<close>

theorem constant_findAncestorFeature_witness:
  "constructedKind (new_StationConstantPlacementRep (1, 0, 0) :: real PlacementRep) = ConstantNode
   \<and> findAncestorFeature demo (new_StationConstantPlacementRep (1, 0, 0)) (Feature 0)
       = Inl AssertionFailed"
  using constant_findAncestorFeature_fails
          [of "new_StationConstantPlacementRep (1, 0, 0) :: real PlacementRep" demo "Feature 0"]
  by (simp add: new_StationConstantPlacementRep_def)

text \<open>
  C9. A node of a feature class is never constant, whatever Feature and index it
  refers to, and so whatever the placement of that Feature is.
\<close>

theorem feature_reference_never_constant:
  "constructedKind p = FeatureNode \<Longrightarrow> isConstant p = False"
  by (cases p) (simp_all add: refIsConstant_def)

text \<open>C9 at the reference to the real parameter Feature 3.\<close>

theorem feature_reference_never_constant_witness:
  "constructedKind unrealized_ref = FeatureNode \<and> isConstant unrealized_ref = False"
  using feature_reference_never_constant [of unrealized_ref]
  by (simp add: unrealized_ref_def)

text \<open>
  C10. \<^verbatim>\<open>cloneUnownedWithNewHandle(p)\<close> leaves in the handle \<open>p\<close> a clone that has
  no owner, the index \<open>-1\<close> and the handle \<open>p\<close>, that is the source node in everything
  but its base members, and whose slot pointer is the one of the source: the clone reads
  the same value as the source in every cache, and a value set through the clone's
  pointer is what the source's pointer reads afterwards. No other handle changes.
\<close>

theorem cloneUnownedWithNewHandle_clears_owner_keeps_slot:
  "\<exists>c. cloneUnownedWithNewHandle r p H p = Some c
      \<and> \<not> hasOwner (base c) \<and> indexInOwner (base c) = -1 \<and> myHandle (base c) = Some p
      \<and> valueSlot (base c) = valueSlot (base r)
      \<and> c = with_base r (base c)
      \<and> getValue c \<sigma> = getValue r \<sigma>
      \<and> (\<forall>T v \<sigma>'. updValueSlot_set T (base c) v \<sigma> = Inr \<sigma>'
            \<longrightarrow> getValue_fromSlot T (base r) \<sigma>' = Inr v)
      \<and> (\<forall>q. q \<noteq> p \<longrightarrow> cloneUnownedWithNewHandle r p H q = H q)"
proof -
  let ?b = "(base r)\<lparr>myHandle := Some p, owner := None, indexInOwner := -1\<rparr>"
  let ?c = "with_base r ?b"
  have c: "cloneUnownedWithNewHandle r p H = H(p \<mapsto> ?c)"
    by (cases r) (simp_all add: cloneUnownedWithNewHandle_def clone_def Let_def)
  have b: "base ?c = ?b"
    by (rule base_with_base)
  have s: "valueSlot ?b = valueSlot (base r)"
    by simp
  have g: "getValue ?c \<sigma> = getValue r \<sigma>"
    using s by (rule getValue_with_base_slot)
  have a: "\<forall>T v \<sigma>'. updValueSlot_set T ?b v \<sigma> = Inr \<sigma>'
            \<longrightarrow> getValue_fromSlot T (base r) \<sigma>' = Inr v"
  proof (intro allI impI)
    fix T v \<sigma>'
    assume "updValueSlot_set T ?b v \<sigma> = Inr \<sigma>'"
    then show "getValue_fromSlot T (base r) \<sigma>' = Inr v"
      by (rule updValueSlot_set_reads_back) simp
  qed
  show ?thesis
    using c b g a by (simp add: hasOwner_def)
qed

text \<open>
  C10 at the reference owned by Feature 3, cloned into the handle 7: the clone has no
  owner and the slot 0 of the source; setting 5 through the clone makes the source
  read 5.
\<close>

theorem cloneUnownedWithNewHandle_witness:
  "cloneUnownedWithNewHandle owned_ref 7 Map.empty 7
     = Some (RealFeaturePlacementRep
               \<lparr>myHandle = Some 7, owner = None, indexInOwner = -1, valueSlot = Some 0\<rparr>
               \<lparr>feature = Feature 3, index = -1\<rparr>)
   \<and> hasOwner (base owned_ref) \<and> valueSlot (base owned_ref) = Some 0
   \<and> updValueSlot_set T_Real
        \<lparr>myHandle = Some 7, owner = None, indexInOwner = -1, valueSlot = Some 0\<rparr>
        (RealValue 5) [0 \<mapsto> unset_Real] = Inr [0 \<mapsto> \<lparr>valid = True, stored = RealValue 5\<rparr>]
   \<and> getValue owned_ref [0 \<mapsto> \<lparr>valid = True, stored = RealValue 5\<rparr>] = Inr (RealValue 5)"
proof -
  obtain c where c: "cloneUnownedWithNewHandle owned_ref 7 Map.empty 7 = Some c"
    and w: "\<forall>T v \<sigma>'. updValueSlot_set T (base c) v [0 \<mapsto> unset_Real] = Inr \<sigma>'
            \<longrightarrow> getValue_fromSlot T (base owned_ref) \<sigma>' = Inr v"
    using cloneUnownedWithNewHandle_clears_owner_keeps_slot
            [of owned_ref 7 Map.empty "[0 \<mapsto> unset_Real]"] by blast
  have e: "c = RealFeaturePlacementRep
               \<lparr>myHandle = Some 7, owner = None, indexInOwner = -1, valueSlot = Some 0\<rparr>
               \<lparr>feature = Feature 3, index = -1\<rparr>"
    using c
    by (simp add: cloneUnownedWithNewHandle_def clone_def owned_ref_def setOwner_def slotted_def
          assignValueSlot_def PlacementRep_init_def)
  have u: "updValueSlot_set T_Real (base c) (RealValue 5) [0 \<mapsto> unset_Real]
             = Inr [0 \<mapsto> \<lparr>valid = True, stored = RealValue 5\<rparr>]"
    by (simp add: e updValueSlot_set_def PlacementValue_downcast_def unset_Real_def
          PlacementValue_set_def PlacementValueRep_setValue_def)
  have g: "getValue_fromSlot T_Real (base owned_ref)
             [0 \<mapsto> \<lparr>valid = True, stored = RealValue (5::real)\<rparr>] = Inr (RealValue 5)"
    using w u by blast
  show ?thesis
    using c e u g
    by (simp add: owned_ref_def hasOwner_def setOwner_def slotted_def assignValueSlot_def
          PlacementRep_init_def)
qed

end
